theory Spec2Isabelle
  imports Main "HOL-Library.Word"
begin

unbundle bit_operations_syntax

section \<open>The value model of \<^verbatim>\<open>types.go\<close>\<close>

text \<open>
  \<^verbatim>\<open>MalType\<close> is the empty interface: a value of any dynamic type. The datatype
  below has one constructor for each dynamic type that \<^verbatim>\<open>types.go\<close> declares,
  tests for or produces:
  \<^item> \<open>GoNil\<close>: the nil interface value;
  \<^item> \<open>GoBool\<close>, \<open>GoInt\<close> (a 64-bit \<^verbatim>\<open>int\<close>), \<open>GoString\<close>: the host scalars;
  \<^item> \<open>GoFloat64\<close>: a \<^verbatim>\<open>float64\<close>, kept as its IEEE 754 bit pattern (this is what
    \<^verbatim>\<open>json.Unmarshal\<close> stores in an interface for a number when \<^verbatim>\<open>UseNumber\<close> is off);
  \<^item> \<open>JsonNumber\<close>: a \<^verbatim>\<open>json.Number\<close>, the literal's text;
  \<^item> \<open>Symbol\<close>, \<open>List\<close>, \<open>Vector\<close>, \<open>HashMap\<close>, \<open>Func\<close>, \<open>MalFunc\<close>, \<open>Atom\<close>:
    the structs of the file, with their fields in source order;
  \<^item> \<open>AtomPtr\<close>: a \<^verbatim>\<open>*Atom\<close>, by its address (this is what \<^verbatim>\<open>Atom_Q\<close> recognises);
  \<^item> \<open>GoFunc\<close>: a bare \<^verbatim>\<open>func([]MalType) (MalType, error)\<close>;
  \<^item> \<open>GoSlice\<close>, \<open>GoMap\<close>: \<^verbatim>\<open>[]interface{}\<close> and \<^verbatim>\<open>map[string]interface{}\<close>, which
    the JSON library stores in an interface for an array and an object.

  A function value cannot be a field of a HOL datatype that occurs in its own argument,
  so a Go function value is a handle: \<open>Some n\<close> names the host function number \<open>n\<close>,
  \<open>None\<close> is the nil function. What a handle does when it is called is given by the
  \<open>host\<close> record further down. A Go map is an association list whose keys are distinct
  (\<open>wf_MalType\<close>); the order of the list is the order in which \<^verbatim>\<open>range\<close> visits it.
  Values are finite trees, so every value is acyclic.
\<close>

datatype EnvType = EnvNil | EnvRef nat

datatype 'v MalFunc_s = MalFunc_s
  (Eval: "nat option") (Exp: 'v) (Env: EnvType) (Params: 'v)
  (IsMacro: bool) (GenEnv: "nat option") (Meta: 'v)

datatype MalType =
    GoNil
  | GoBool bool
  | GoInt "64 word"
  | GoFloat64 "64 word"
  | JsonNumber string
  | GoString string
  | Symbol string
  | List "MalType list" MalType
  | Vector "MalType list" MalType
  | HashMap "(string \<times> MalType) list" MalType
  | Func "nat option" MalType
  | MalFunc "MalType MalFunc_s"
  | Atom MalType MalType
  | AtomPtr nat
  | GoFunc "nat option"
  | GoSlice "MalType list"
  | GoMap "(string \<times> MalType) list"

text \<open>The dynamic type of a value, as \<^verbatim>\<open>reflect.TypeOf\<close> reports it.\<close>

datatype GoType =
    TNil | TBool | TInt | TFloat64 | TJsonNumber | TString | TSymbol | TList | TVector
  | THashMap | TFunc | TMalFunc | TAtom | TAtomPtr | TGoFunc | TSlice | TMap

fun TypeOf :: "MalType \<Rightarrow> GoType" where
  "TypeOf GoNil = TNil"
| "TypeOf (GoBool b) = TBool"
| "TypeOf (GoInt n) = TInt"
| "TypeOf (GoFloat64 w) = TFloat64"
| "TypeOf (JsonNumber s) = TJsonNumber"
| "TypeOf (GoString s) = TString"
| "TypeOf (Symbol s) = TSymbol"
| "TypeOf (List v m) = TList"
| "TypeOf (Vector v m) = TVector"
| "TypeOf (HashMap v m) = THashMap"
| "TypeOf (Func f m) = TFunc"
| "TypeOf (MalFunc f) = TMalFunc"
| "TypeOf (Atom v m) = TAtom"
| "TypeOf (AtomPtr p) = TAtomPtr"
| "TypeOf (GoFunc f) = TGoFunc"
| "TypeOf (GoSlice v) = TSlice"
| "TypeOf (GoMap v) = TMap"

text \<open>\<^verbatim>\<open>reflect.Type.Name\<close>: the name of a defined type, empty for an unnamed one.\<close>

fun Name :: "GoType \<Rightarrow> string" where
  "Name TNil = ''''"
| "Name TBool = ''bool''"
| "Name TInt = ''int''"
| "Name TFloat64 = ''float64''"
| "Name TJsonNumber = ''Number''"
| "Name TString = ''string''"
| "Name TSymbol = ''Symbol''"
| "Name TList = ''List''"
| "Name TVector = ''Vector''"
| "Name THashMap = ''HashMap''"
| "Name TFunc = ''Func''"
| "Name TMalFunc = ''MalFunc''"
| "Name TAtom = ''Atom''"
| "Name TAtomPtr = ''''"
| "Name TGoFunc = ''''"
| "Name TSlice = ''''"
| "Name TMap = ''''"

text \<open>
  Go's \<^verbatim>\<open>error\<close> values: \<open>ErrorString\<close> is \<^verbatim>\<open>errors.New\<close>, \<open>Errorf p e\<close> is
  \<^verbatim>\<open>fmt.Errorf(p + ": %v", e)\<close>, \<open>MalError\<close> is the struct of the file,
  \<open>UnmarshalTypeError value type\<close> is the JSON library's error for a value that does
  not fit its target, and \<open>HostError\<close> is any other error a host callback returns.
  A run-time panic is a \<open>panic\<close>; a function that can panic returns \<open>panic + 'a\<close>.
\<close>

datatype error =
    ErrorString string
  | Errorf string error
  | MalError MalType
  | UnmarshalTypeError string string
  | HostError nat

datatype panic = UncomparableType GoType | TypeAssertion GoType | IndexOutOfRange | NilFuncCall

subsection \<open>Predicates\<close>

fun Nil_Q :: "MalType \<Rightarrow> bool" where
  "Nil_Q GoNil = True"
| "Nil_Q obj = False"

fun True_Q :: "MalType \<Rightarrow> bool" where
  "True_Q (GoBool b) = (b = True)"
| "True_Q obj = False"

fun False_Q :: "MalType \<Rightarrow> bool" where
  "False_Q (GoBool b) = (b = False)"
| "False_Q obj = False"

fun Number_Q :: "MalType \<Rightarrow> bool" where
  "Number_Q (GoInt n) = True"
| "Number_Q obj = False"

fun Symbol_Q :: "MalType \<Rightarrow> bool" where
  "Symbol_Q (Symbol s) = True"
| "Symbol_Q obj = False"

text \<open>The keyword marker U+029E is the two bytes CA 9E in UTF-8.\<close>

definition keyword_marker :: string where
  "keyword_marker = [CHR 0xCA, CHR 0x9E]"

definition NewKeyword :: "string \<Rightarrow> MalType \<times> error option" where
  "NewKeyword s = (GoString (keyword_marker @ s), None)"

fun Keyword_Q :: "MalType \<Rightarrow> bool" where
  "Keyword_Q (GoString s) = (take 2 s = keyword_marker)"
| "Keyword_Q obj = False"

fun String_Q :: "MalType \<Rightarrow> bool" where
  "String_Q (GoString s) = True"
| "String_Q obj = False"



fun List_Q :: "MalType \<Rightarrow> bool" where
  "List_Q (List v m) = True"
| "List_Q obj = False"

fun Vector_Q :: "MalType \<Rightarrow> bool" where
  "Vector_Q (Vector v m) = True"
| "Vector_Q obj = False"

fun HashMap_Q :: "MalType \<Rightarrow> bool" where
  "HashMap_Q (HashMap v m) = True"
| "HashMap_Q obj = False"

fun Atom_Q :: "MalType \<Rightarrow> bool" where
  "Atom_Q (AtomPtr p) = True"
| "Atom_Q obj = False"

definition Sequential_Q :: "MalType \<Rightarrow> bool" where
  "Sequential_Q seq =
     (if seq = GoNil then False
      else Name (TypeOf seq) = ''List'' \<or> Name (TypeOf seq) = ''Vector'')"

fun GetSlice :: "MalType \<Rightarrow> MalType list \<times> error option" where
  "GetSlice (List v m) = (v, None)"
| "GetSlice (Vector v m) = (v, None)"
| "GetSlice obj = ([], Some (ErrorString ''GetSlice called on non-sequence''))"

subsection \<open>Closures\<close>



subsection \<open>Go's \<^verbatim>\<open>==\<close> on interface values\<close>

text \<open>
  Two interface values with different dynamic types are unequal. With the same dynamic
  type, the comparison panics when the type is not comparable (a struct with a slice,
  map or function field, a slice, a map, a function); otherwise the values are compared:
  a struct field by field in source order, stopping at the first difference, a pointer
  by address, a \<^verbatim>\<open>float64\<close> by IEEE 754 equality (a NaN differs from itself, the two
  zeros are equal).
\<close>

definition f64_is_NaN :: "64 word \<Rightarrow> bool" where
  "f64_is_NaN w =
     (drop_bit 52 w AND 0x7FF = 0x7FF \<and> w AND 0xFFFFFFFFFFFFF \<noteq> 0)"

definition f64_is_zero :: "64 word \<Rightarrow> bool" where
  "f64_is_zero w = (w AND 0x7FFFFFFFFFFFFFFF = 0)"

definition f64_eq :: "64 word \<Rightarrow> 64 word \<Rightarrow> bool" where
  "f64_eq x y =
     (if f64_is_NaN x \<or> f64_is_NaN y then False
      else if f64_is_zero x \<and> f64_is_zero y then True
      else x = y)"

fun go_eq :: "MalType \<Rightarrow> MalType \<Rightarrow> panic + bool" where
  "go_eq GoNil b = Inr (b = GoNil)"
| "go_eq (GoBool x) b = Inr (case b of GoBool y \<Rightarrow> x = y | _ \<Rightarrow> False)"
| "go_eq (GoInt x) b = Inr (case b of GoInt y \<Rightarrow> x = y | _ \<Rightarrow> False)"
| "go_eq (GoFloat64 x) b = Inr (case b of GoFloat64 y \<Rightarrow> f64_eq x y | _ \<Rightarrow> False)"
| "go_eq (JsonNumber x) b = Inr (case b of JsonNumber y \<Rightarrow> x = y | _ \<Rightarrow> False)"
| "go_eq (GoString x) b = Inr (case b of GoString y \<Rightarrow> x = y | _ \<Rightarrow> False)"
| "go_eq (Symbol x) b = Inr (case b of Symbol y \<Rightarrow> x = y | _ \<Rightarrow> False)"
| "go_eq (AtomPtr p) b = Inr (case b of AtomPtr q \<Rightarrow> p = q | _ \<Rightarrow> False)"
| "go_eq (Atom v m) b =
     (case b of
        Atom v' m' \<Rightarrow>
          (case go_eq v v' of
             Inl p \<Rightarrow> Inl p
           | Inr False \<Rightarrow> Inr False
           | Inr True \<Rightarrow> go_eq m m')
      | _ \<Rightarrow> Inr False)"
| "go_eq a b =
     (if TypeOf a = TypeOf b then Inl (UncomparableType (TypeOf a)) else Inr False)"

subsection \<open>\<^verbatim>\<open>Equal_Q\<close>\<close>

text \<open>
  \<open>map_index bm k\<close> is the Go expression \<^verbatim>\<open>bm[k]\<close> on a \<^verbatim>\<open>map[string]MalType\<close>: the
  value stored under the key, and the zero value of the element type, the nil
  interface, when the key is absent.
\<close>

definition map_index :: "(string \<times> MalType) list \<Rightarrow> string \<Rightarrow> MalType" where
  "map_index bm k = (case map_of bm k of None \<Rightarrow> GoNil | Some v \<Rightarrow> v)"

text \<open>
  \<open>Equal_Q_loop\<close> is the loop over the indices of the two slices (entered only when
  their lengths agree), \<open>Equal_Q_range\<close> the \<^verbatim>\<open>range\<close> loop over the entries of the
  first map. A panic inside a comparison ends the whole call.
\<close>

function Equal_Q :: "MalType \<Rightarrow> MalType \<Rightarrow> panic + bool"
  and Equal_Q_loop :: "MalType list \<Rightarrow> MalType list \<Rightarrow> panic + bool"
  and Equal_Q_range :: "(string \<times> MalType) list \<Rightarrow> (string \<times> MalType) list \<Rightarrow> panic + bool"
where
  "Equal_Q a b =
     (let ota = TypeOf a; otb = TypeOf b in
      if \<not> (ota = otb \<or> (Sequential_Q a \<and> Sequential_Q b)) then Inr False
      else
        (case a of
           Symbol av \<Rightarrow>
             (case b of
                Symbol bv \<Rightarrow> Inr (av = bv)
              | _ \<Rightarrow> Inl (TypeAssertion otb))
         | List av ameta \<Rightarrow>
             (let bs = fst (GetSlice b) in
              if length av \<noteq> length bs then Inr False else Equal_Q_loop av bs)
         | Vector av ameta \<Rightarrow>
             (let bs = fst (GetSlice b) in
              if length av \<noteq> length bs then Inr False else Equal_Q_loop av bs)
         | HashMap am ameta \<Rightarrow>
             (case b of
                HashMap bm bmeta \<Rightarrow>
                  if length am \<noteq> length bm then Inr False else Equal_Q_range am bm
              | _ \<Rightarrow> Inl (TypeAssertion otb))
         | _ \<Rightarrow> go_eq a b))"
| "Equal_Q_loop [] bs = Inr True"
| "Equal_Q_loop (x # xs) [] = Inl IndexOutOfRange"
| "Equal_Q_loop (x # xs) (y # ys) =
     (case Equal_Q x y of
        Inl p \<Rightarrow> Inl p
      | Inr False \<Rightarrow> Inr False
      | Inr True \<Rightarrow> Equal_Q_loop xs ys)"
| "Equal_Q_range [] bm = Inr True"
| "Equal_Q_range (kv # rest) bm =
     (case Equal_Q (snd kv) (map_index bm (fst kv)) of
        Inl p \<Rightarrow> Inl p
      | Inr False \<Rightarrow> Inr False
      | Inr True \<Rightarrow> Equal_Q_range rest bm)"
  by pat_completeness auto
termination
  by (relation "measure (\<lambda>x. case x of
        Inl (a, b) \<Rightarrow> size a
      | Inr (Inl (xs, ys)) \<Rightarrow> size_list size xs
      | Inr (Inr (kvs, bm)) \<Rightarrow> size_list (\<lambda>kv. Suc (size (snd kv))) kvs)")
    (auto simp: size_prod_simp)

subsection \<open>\<^verbatim>\<open>Apply\<close>\<close>

text \<open>
  The functions behind the handles belong to the host program. They may have effects of
  their own, so each takes the state of the host \<open>'w\<close> and returns the new one, next to
  what the call returned: a panic, or Go's pair of a value and an error (\<open>None\<close> is the
  nil error). \<open>call_Fn\<close> runs a \<^verbatim>\<open>func([]MalType) (MalType, error)\<close>, \<open>call_Eval\<close> the
  \<^verbatim>\<open>Eval\<close> field of a closure and \<open>call_GenEnv\<close> its \<^verbatim>\<open>GenEnv\<close> field. Calling the nil
  function panics.
\<close>

record 'w host =
  call_Fn :: "nat \<Rightarrow> MalType list \<Rightarrow> 'w \<Rightarrow> (panic + MalType \<times> error option) \<times> 'w"
  call_Eval :: "nat \<Rightarrow> MalType \<Rightarrow> EnvType \<Rightarrow> 'w \<Rightarrow> (panic + MalType \<times> error option) \<times> 'w"
  call_GenEnv ::
    "nat \<Rightarrow> EnvType \<Rightarrow> MalType \<Rightarrow> MalType \<Rightarrow> 'w \<Rightarrow> (panic + EnvType \<times> error option) \<times> 'w"

definition Apply ::
  "'w host \<Rightarrow> MalType \<Rightarrow> MalType list \<Rightarrow> 'w \<Rightarrow> (panic + MalType \<times> error option) \<times> 'w"
where
  "Apply h f_mt a w =
     (case f_mt of
        MalFunc f \<Rightarrow>
          (case GenEnv f of
             None \<Rightarrow> (Inl NilFuncCall, w)
           | Some g \<Rightarrow>
               (case call_GenEnv h g (Env f) (Params f) (List a GoNil) w of
                  (Inl p, w1) \<Rightarrow> (Inl p, w1)
                | (Inr (env, Some e), w1) \<Rightarrow> (Inr (GoNil, Some e), w1)
                | (Inr (env, None), w1) \<Rightarrow>
                    (case Eval f of
                       None \<Rightarrow> (Inl NilFuncCall, w1)
                     | Some ev \<Rightarrow> call_Eval h ev (Exp f) env w1)))
      | Func fn fmeta \<Rightarrow>
          (case fn of
             None \<Rightarrow> (Inl NilFuncCall, w)
           | Some g \<Rightarrow> call_Fn h g a w)
      | GoFunc fn \<Rightarrow>
          (case fn of
             None \<Rightarrow> (Inl NilFuncCall, w)
           | Some g \<Rightarrow> call_Fn h g a w)
      | _ \<Rightarrow> (Inr (GoNil, Some (ErrorString ''Invalid function to Apply'')), w))"

section \<open>Decoding\<close>

text \<open>
  \<^verbatim>\<open>UnmarshalJSON\<close> receives bytes and hands them to \<^verbatim>\<open>encoding/json\<close>, which is not
  part of the repository. The model starts from the syntax tree of the bytes: \<open>JNumber\<close>
  keeps the text of the literal, \<open>JObject\<close> the members in the order of the text, with
  their duplicates. A \<^verbatim>\<open>json.RawMessage\<close> is the tree of the bytes it holds; its first
  byte is \<^verbatim>\<open>{\<close> for an object, a digit or a minus sign for a number, and another byte
  for the rest. Bytes that are not JSON have no tree and are outside the model.
\<close>

datatype json =
    JNull
  | JBool bool
  | JNumber string
  | JString string
  | JArray "json list"
  | JObject "(string \<times> json) list"

text \<open>A \<open>parse_float\<close> stands for \<^verbatim>\<open>strconv.ParseFloat(s, 64)\<close>, which the library calls
  on a literal that goes into an interface without \<^verbatim>\<open>UseNumber\<close>: the bits of the
  nearest \<^verbatim>\<open>float64\<close>, or \<open>None\<close> when the literal is out of range. The decoder takes
  it as a parameter \<open>pf\<close>.\<close>

type_synonym parse_float = "string \<Rightarrow> 64 word option"

text \<open>The decoder keeps the first error it meets that does not stop it.\<close>

definition saveError :: "error option \<Rightarrow> error \<Rightarrow> error option" where
  "saveError saved e = (case saved of None \<Rightarrow> Some e | Some e0 \<Rightarrow> Some e0)"

fun json_kind :: "json \<Rightarrow> string" where
  "json_kind JNull = ''null''"
| "json_kind (JBool b) = ''bool''"
| "json_kind (JNumber s) = ''number''"
| "json_kind (JString s) = ''string''"
| "json_kind (JArray xs) = ''array''"
| "json_kind (JObject kvs) = ''object''"

text \<open>The Go statement \<^verbatim>\<open>m[k] = v\<close> on a map.\<close>

fun map_assign :: "(string \<times> 'a) list \<Rightarrow> string \<Rightarrow> 'a \<Rightarrow> (string \<times> 'a) list" where
  "map_assign [] k v = [(k, v)]"
| "map_assign (p # ps) k v = (if fst p = k then (k, v) # ps else p # map_assign ps k v)"

subsection \<open>Decoding into an interface\<close>

text \<open>
  What the library stores in an \<^verbatim>\<open>interface{}\<close>: nil, a bool, a string, a
  \<^verbatim>\<open>[]interface{}\<close>, a \<^verbatim>\<open>map[string]interface{}\<close> (a later member replaces an earlier
  one with the same name), and for a number a \<^verbatim>\<open>json.Number\<close> when \<^verbatim>\<open>UseNumber\<close> is
  set and a \<^verbatim>\<open>float64\<close> otherwise. A literal that \<open>pf\<close> refuses is a saved error, and
  the value stays nil.
\<close>

function valueInterface ::
    "bool \<Rightarrow> parse_float \<Rightarrow> json \<Rightarrow> error option \<Rightarrow> MalType \<times> error option"
  and arrayInterface ::
    "bool \<Rightarrow> parse_float \<Rightarrow> json list \<Rightarrow> error option \<Rightarrow> MalType list \<times> error option"
  and objectInterface ::
    "bool \<Rightarrow> parse_float \<Rightarrow> (string \<times> json) list \<Rightarrow> (string \<times> MalType) list \<Rightarrow>
       error option \<Rightarrow> (string \<times> MalType) list \<times> error option"
where
  "valueInterface useNumber pf JNull saved = (GoNil, saved)"
| "valueInterface useNumber pf (JBool b) saved = (GoBool b, saved)"
| "valueInterface useNumber pf (JString s) saved = (GoString s, saved)"
| "valueInterface useNumber pf (JNumber s) saved =
     (if useNumber then (JsonNumber s, saved)
      else
        (case pf s of
           Some w \<Rightarrow> (GoFloat64 w, saved)
         | None \<Rightarrow> (GoNil, saveError saved (UnmarshalTypeError (''number '' @ s) ''float64''))))"
| "valueInterface useNumber pf (JArray xs) saved =
     (case arrayInterface useNumber pf xs saved of (vs, saved') \<Rightarrow> (GoSlice vs, saved'))"
| "valueInterface useNumber pf (JObject kvs) saved =
     (case objectInterface useNumber pf kvs [] saved of (m, saved') \<Rightarrow> (GoMap m, saved'))"
| "arrayInterface useNumber pf [] saved = ([], saved)"
| "arrayInterface useNumber pf (x # xs) saved =
     (case valueInterface useNumber pf x saved of
        (v, saved1) \<Rightarrow>
          (case arrayInterface useNumber pf xs saved1 of
             (vs, saved2) \<Rightarrow> (v # vs, saved2)))"
| "objectInterface useNumber pf [] m saved = (m, saved)"
| "objectInterface useNumber pf (kv # kvs) m saved =
     (case valueInterface useNumber pf (snd kv) saved of
        (v, saved1) \<Rightarrow> objectInterface useNumber pf kvs (map_assign m (fst kv) v) saved1)"
  by pat_completeness auto
termination
  by (relation "measure (\<lambda>x. case x of
        Inl (u, pf, j, sv) \<Rightarrow> size j
      | Inr (Inl (u, pf, xs, sv)) \<Rightarrow> size_list size xs
      | Inr (Inr (u, pf, kvs, m, sv)) \<Rightarrow> size_list (\<lambda>kv. Suc (size (snd kv))) kvs)")
    (auto simp: size_prod_simp)

subsection \<open>Decoding into a struct\<close>

text \<open>
  A member of the object goes to the field whose name is the member's name, and
  otherwise to the field whose name equals it under case folding. \<open>foldName\<close> maps the
  ASCII letters to upper case and the two other characters that fold to an ASCII
  letter, the Kelvin sign U+212A and the long s U+017F, to \<open>K\<close> and \<open>S\<close>; the field
  names of this file are ASCII. A member that matches no field is skipped:
  \<^verbatim>\<open>json.Unmarshal\<close> has no \<^verbatim>\<open>DisallowUnknownFields\<close>.
\<close>

definition ascii_upper :: "char \<Rightarrow> char" where
  "ascii_upper c =
     (let n = (of_char c :: nat) in if 97 \<le> n \<and> n \<le> 122 then char_of (n - 32) else c)"

fun foldName :: "string \<Rightarrow> string" where
  "foldName [] = []"
| "foldName (c # cs) =
     (if take 3 (c # cs) = [CHR 0xE2, CHR 0x84, CHR 0xAA] then CHR ''K'' # foldName (drop 2 cs)
      else if take 2 (c # cs) = [CHR 0xC5, CHR 0xBF] then CHR ''S'' # foldName (drop 1 cs)
      else ascii_upper c # foldName cs)"

definition find_field :: "string list \<Rightarrow> string \<Rightarrow> string option" where
  "find_field names key =
     (if key \<in> set names then Some key
      else find (\<lambda>n. foldName n = foldName key) names)"

text \<open>
  \<open>struct_fields names store\<close> walks the members of the object; \<open>store f v st saved\<close>
  decodes the value \<open>v\<close> into the field \<open>f\<close> of the struct \<open>st\<close>. \<open>json_Unmarshal\<close> is
  \<^verbatim>\<open>json.Unmarshal(raw, &res)\<close> for an object \<^verbatim>\<open>raw\<close> and a struct \<^verbatim>\<open>res\<close> whose
  fields cannot stop the decoder: the saved error, if any, is returned.
\<close>

fun struct_fields ::
  "string list \<Rightarrow> (string \<Rightarrow> json \<Rightarrow> 's \<Rightarrow> error option \<Rightarrow> 's \<times> error option) \<Rightarrow>
     (string \<times> json) list \<Rightarrow> 's \<Rightarrow> error option \<Rightarrow> 's \<times> error option"
where
  "struct_fields names store [] st saved = (st, saved)"
| "struct_fields names store (kv # kvs) st saved =
     (case find_field names (fst kv) of
        None \<Rightarrow> struct_fields names store kvs st saved
      | Some f \<Rightarrow>
          (case store f (snd kv) st saved of
             (st', saved') \<Rightarrow> struct_fields names store kvs st' saved'))"

definition json_Unmarshal ::
  "string list \<Rightarrow> (string \<Rightarrow> json \<Rightarrow> 's \<Rightarrow> error option \<Rightarrow> 's \<times> error option) \<Rightarrow>
     (string \<times> json) list \<Rightarrow> 's \<Rightarrow> error + 's"
where
  "json_Unmarshal names store kvs res =
     (case struct_fields names store kvs res None of
        (st, None) \<Rightarrow> Inr st
      | (st, Some e) \<Rightarrow> Inl e)"

text \<open>The fields, by their types: \<^verbatim>\<open>string\<close>, \<^verbatim>\<open>MalType\<close>, \<^verbatim>\<open>[]MalType\<close>,
  \<^verbatim>\<open>map[string]MalType\<close> and the function type. All of them are decoded by
  \<^verbatim>\<open>json.Unmarshal\<close>, that is without \<^verbatim>\<open>UseNumber\<close>. Once an error is saved the
  caller drops the struct, so the value that a refused store leaves in a field is of no
  consequence.\<close>

definition store_string :: "json \<Rightarrow> string \<Rightarrow> error option \<Rightarrow> string \<times> error option" where
  "store_string v cur saved =
     (case v of
        JString s \<Rightarrow> (s, saved)
      | JNull \<Rightarrow> (cur, saved)
      | _ \<Rightarrow> (cur, saveError saved (UnmarshalTypeError (json_kind v) ''string'')))"

definition store_interface ::
  "parse_float \<Rightarrow> json \<Rightarrow> error option \<Rightarrow> MalType \<times> error option" where
  "store_interface pf v saved = valueInterface False pf v saved"

definition store_slice ::
  "parse_float \<Rightarrow> json \<Rightarrow> MalType list \<Rightarrow> error option \<Rightarrow> MalType list \<times> error option"
where
  "store_slice pf v cur saved =
     (case v of
        JArray xs \<Rightarrow> arrayInterface False pf xs saved
      | JNull \<Rightarrow> ([], saved)
      | _ \<Rightarrow> (cur, saveError saved (UnmarshalTypeError (json_kind v) ''[]types.MalType'')))"

definition store_map ::
  "parse_float \<Rightarrow> json \<Rightarrow> (string \<times> MalType) list \<Rightarrow> error option \<Rightarrow>
     (string \<times> MalType) list \<times> error option"
where
  "store_map pf v cur saved =
     (case v of
        JObject kvs \<Rightarrow> objectInterface False pf kvs cur saved
      | JNull \<Rightarrow> ([], saved)
      | _ \<Rightarrow>
          (cur, saveError saved (UnmarshalTypeError (json_kind v) ''map[string]types.MalType'')))"

definition store_func :: "json \<Rightarrow> nat option \<Rightarrow> error option \<Rightarrow> nat option \<times> error option"
where
  "store_func v cur saved =
     (case v of
        JNull \<Rightarrow> (cur, saved)
      | _ \<Rightarrow>
          (cur, saveError saved
             (UnmarshalTypeError (json_kind v) ''func([]types.MalType) (types.MalType, error)'')))"

text \<open>The structs that \<^verbatim>\<open>UnmarshalJSON\<close> decodes, each as the tuple of its fields.\<close>

definition Symbol_store ::
  "string \<Rightarrow> json \<Rightarrow> string \<Rightarrow> error option \<Rightarrow> string \<times> error option" where
  "Symbol_store f v st saved = store_string v st saved"

definition Atom_store ::
  "parse_float \<Rightarrow> string \<Rightarrow> json \<Rightarrow> MalType \<times> MalType \<Rightarrow> error option \<Rightarrow>
     (MalType \<times> MalType) \<times> error option"
where
  "Atom_store pf f v st saved =
     (if f = ''atom'' then
        (case store_interface pf v saved of (x, saved') \<Rightarrow> ((x, snd st), saved'))
      else
        (case store_interface pf v saved of (x, saved') \<Rightarrow> ((fst st, x), saved')))"

definition HashMap_store ::
  "parse_float \<Rightarrow> string \<Rightarrow> json \<Rightarrow> (string \<times> MalType) list \<times> MalType \<Rightarrow> error option \<Rightarrow>
     ((string \<times> MalType) list \<times> MalType) \<times> error option"
where
  "HashMap_store pf f v st saved =
     (if f = ''hashmap'' then
        (case store_map pf v (fst st) saved of (x, saved') \<Rightarrow> ((x, snd st), saved'))
      else
        (case store_interface pf v saved of (x, saved') \<Rightarrow> ((fst st, x), saved')))"

definition Vector_store ::
  "parse_float \<Rightarrow> string \<Rightarrow> json \<Rightarrow> MalType list \<times> MalType \<Rightarrow> error option \<Rightarrow>
     (MalType list \<times> MalType) \<times> error option"
where
  "Vector_store pf f v st saved =
     (if f = ''vector'' then
        (case store_slice pf v (fst st) saved of (x, saved') \<Rightarrow> ((x, snd st), saved'))
      else
        (case store_interface pf v saved of (x, saved') \<Rightarrow> ((fst st, x), saved')))"

definition Func_store ::
  "parse_float \<Rightarrow> string \<Rightarrow> json \<Rightarrow> nat option \<times> MalType \<Rightarrow> error option \<Rightarrow>
     (nat option \<times> MalType) \<times> error option"
where
  "Func_store pf f v st saved =
     (if f = ''fn'' then
        (case store_func v (fst st) saved of (x, saved') \<Rightarrow> ((x, snd st), saved'))
      else
        (case store_interface pf v saved of (x, saved') \<Rightarrow> ((fst st, x), saved')))"

text \<open>\<^verbatim>\<open>json.Unmarshal(raw, &m)\<close> for the map \<^verbatim>\<open>m\<close> that is probed for the tag.\<close>

definition json_Unmarshal_map ::
  "parse_float \<Rightarrow> (string \<times> json) list \<Rightarrow> error + (string \<times> MalType) list" where
  "json_Unmarshal_map pf kvs =
     (case objectInterface False pf kvs [] None of
        (m, None) \<Rightarrow> Inr m
      | (m, Some e) \<Rightarrow> Inl e)"

definition has_key :: "(string \<times> MalType) list \<Rightarrow> string \<Rightarrow> bool" where
  "has_key m k = (map_of m k \<noteq> None)"

subsection \<open>\<^verbatim>\<open>JSONUnmarshal\<close>\<close>

text \<open>
  \<^verbatim>\<open>JSONUnmarshal(buffer, ast)\<close> decodes with \<^verbatim>\<open>UseNumber\<close> and
  \<^verbatim>\<open>DisallowUnknownFields\<close>. The file calls it with three targets, none of them a
  struct, so that the second option never applies:
  \<^item> a \<^verbatim>\<open>[]json.RawMessage\<close>: the elements of an array are kept as they are, \<^verbatim>\<open>null\<close>
    gives no element, and any other value is refused;
  \<^item> a \<^verbatim>\<open>json.Number\<close>: the text of the literal;
  \<^item> an \<^verbatim>\<open>interface{}\<close>: the value of \<open>valueInterface\<close> with \<^verbatim>\<open>UseNumber\<close>.
\<close>

definition JSONUnmarshal_RawMessages :: "json \<Rightarrow> error + json list" where
  "JSONUnmarshal_RawMessages buffer =
     (case buffer of
        JArray raws \<Rightarrow> Inr raws
      | JNull \<Rightarrow> Inr []
      | _ \<Rightarrow> Inl (UnmarshalTypeError (json_kind buffer) ''[]json.RawMessage''))"

definition JSONUnmarshal_Number :: "json \<Rightarrow> error + string" where
  "JSONUnmarshal_Number buffer =
     (case buffer of
        JNumber s \<Rightarrow> Inr s
      | _ \<Rightarrow> Inl (UnmarshalTypeError (json_kind buffer) ''json.Number''))"

definition JSONUnmarshal_interface :: "parse_float \<Rightarrow> json \<Rightarrow> error + MalType" where
  "JSONUnmarshal_interface pf buffer =
     (case valueInterface True pf buffer None of
        (item, None) \<Rightarrow> Inr item
      | (item, Some err) \<Rightarrow> Inl err)"

subsection \<open>\<^verbatim>\<open>ListMalType.UnmarshalJSON\<close>\<close>

text \<open>
  \<open>UnmarshalJSON pf j b\<close> is the method on the slice \<open>j\<close>: it returns the slice as the
  call leaves it, and the error.
  \<open>UnmarshalJSON_range\<close> is the loop over the raw elements. \<open>List_fields\<close> is
  \<^verbatim>\<open>json.Unmarshal(raw, &res)\<close> for a \<^verbatim>\<open>List\<close>: the field \<^verbatim>\<open>Val\<close> is a
  \<^verbatim>\<open>ListMalType\<close>, so the library calls \<^verbatim>\<open>UnmarshalJSON\<close> on it with the bytes of the
  member's value, whatever they are, and an error of that call stops the decoder.
\<close>

function UnmarshalJSON ::
    "parse_float \<Rightarrow> MalType list \<Rightarrow> json \<Rightarrow> MalType list \<times> error option"
  and UnmarshalJSON_range ::
    "parse_float \<Rightarrow> MalType list \<Rightarrow> json list \<Rightarrow> MalType list \<times> error option"
  and List_fields ::
    "parse_float \<Rightarrow> (string \<times> json) list \<Rightarrow> MalType list \<times> MalType \<Rightarrow> error option \<Rightarrow>
       error + (MalType list \<times> MalType) \<times> error option"
where
  "UnmarshalJSON pf j b =
     (case JSONUnmarshal_RawMessages b of
        Inl err \<Rightarrow> (j, Some err)
      | Inr rawJSONAST \<Rightarrow> UnmarshalJSON_range pf j rawJSONAST)"
| "UnmarshalJSON_range pf j [] = (j, None)"
| "UnmarshalJSON_range pf j (raw # rest) =
     (case raw of
        JObject kvs \<Rightarrow>
          (case json_Unmarshal_map pf kvs of
             Inl err \<Rightarrow> (j, Some err)
           | Inr m \<Rightarrow>
               if has_key m ''symbol'' then
                 (case json_Unmarshal [''symbol''] Symbol_store kvs [] of
                    Inl e \<Rightarrow> (j, Some (Errorf ''json-decode of symbol failed'' e))
                  | Inr res \<Rightarrow> UnmarshalJSON_range pf (j @ [Symbol res]) rest)
               else if has_key m ''atom'' then
                 (case json_Unmarshal [''atom'', ''meta''] (Atom_store pf) kvs (GoNil, GoNil) of
                    Inl e \<Rightarrow> (j, Some (Errorf ''json-decode of atom failed'' e))
                  | Inr res \<Rightarrow> UnmarshalJSON_range pf (j @ [Atom (fst res) (snd res)]) rest)
               else if has_key m ''list'' then
                 (case List_fields pf kvs ([], GoNil) None of
                    Inl e \<Rightarrow> (j, Some (Errorf ''json-decode of list failed'' e))
                  | Inr (res, Some e) \<Rightarrow> (j, Some (Errorf ''json-decode of list failed'' e))
                  | Inr (res, None) \<Rightarrow>
                      UnmarshalJSON_range pf (j @ [List (fst res) (snd res)]) rest)
               else if has_key m ''hashmap'' then
                 (case json_Unmarshal [''hashmap'', ''meta''] (HashMap_store pf) kvs ([], GoNil) of
                    Inl e \<Rightarrow> (j, Some (Errorf ''json-decode of hashmap failed'' e))
                  | Inr res \<Rightarrow> UnmarshalJSON_range pf (j @ [HashMap (fst res) (snd res)]) rest)
               else if has_key m ''vector'' then
                 (case json_Unmarshal [''vector'', ''meta''] (Vector_store pf) kvs ([], GoNil) of
                    Inl e \<Rightarrow> (j, Some (Errorf ''json-decode of vector failed'' e))
                  | Inr res \<Rightarrow> UnmarshalJSON_range pf (j @ [Vector (fst res) (snd res)]) rest)
               else if has_key m ''fn'' then
                 (case json_Unmarshal [''fn'', ''meta''] (Func_store pf) kvs (None, GoNil) of
                    Inl e \<Rightarrow> (j, Some (Errorf ''json-decode of fn failed'' e))
                  | Inr res \<Rightarrow> UnmarshalJSON_range pf (j @ [Func (fst res) (snd res)]) rest)
               else (j, Some (ErrorString ''json-decode of unknown type'')))
      | JNumber s \<Rightarrow>
          (case JSONUnmarshal_Number raw of
             Inl err \<Rightarrow> (j, Some err)
           | Inr item \<Rightarrow> UnmarshalJSON_range pf (j @ [JsonNumber item]) rest)
      | _ \<Rightarrow>
          (case JSONUnmarshal_interface pf raw of
             Inl err \<Rightarrow> (j, Some err)
           | Inr item \<Rightarrow> UnmarshalJSON_range pf (j @ [item]) rest))"
| "List_fields pf [] st saved = Inr (st, saved)"
| "List_fields pf (kv # kvs) st saved =
     (case find_field [''list'', ''meta''] (fst kv) of
        None \<Rightarrow> List_fields pf kvs st saved
      | Some f \<Rightarrow>
          if f = ''list'' then
            (case UnmarshalJSON pf (fst st) (snd kv) of
               (val, Some e) \<Rightarrow> Inl e
             | (val, None) \<Rightarrow> List_fields pf kvs (val, snd st) saved)
          else
            (case store_interface pf (snd kv) saved of
               (x, saved') \<Rightarrow> List_fields pf kvs (fst st, x) saved'))"
  by pat_completeness auto
termination
  by (relation "measure (\<lambda>x. case x of
        Inl (pf, j, b) \<Rightarrow> Suc (size b)
      | Inr (Inl (pf, j, raws)) \<Rightarrow> size_list size raws
      | Inr (Inr (pf, kvs, st, sv)) \<Rightarrow> size_list (\<lambda>kv. Suc (size (snd kv))) kvs)")
    (auto simp: size_prod_simp JSONUnmarshal_RawMessages_def split: json.splits)

section \<open>Values used in the statements\<close>

text \<open>
  \<open>wf_MalType\<close>: the keys of every map in the value are distinct, so that the
  association list is a Go map and its length is the number of keys.
\<close>

fun wf_MalType :: "MalType \<Rightarrow> bool" where
  "wf_MalType (List v m) = ((\<forall>x \<in> set v. wf_MalType x) \<and> wf_MalType m)"
| "wf_MalType (Vector v m) = ((\<forall>x \<in> set v. wf_MalType x) \<and> wf_MalType m)"
| "wf_MalType (HashMap v m) =
     (distinct (map fst v) \<and> (\<forall>x \<in> set (map snd v). wf_MalType x) \<and> wf_MalType m)"
| "wf_MalType (Func f m) = wf_MalType m"
| "wf_MalType (MalFunc (MalFunc_s ev ex en pa mac ge me)) =
     (wf_MalType ex \<and> wf_MalType pa \<and> wf_MalType me)"
| "wf_MalType (Atom v m) = (wf_MalType v \<and> wf_MalType m)"
| "wf_MalType (GoSlice v) = (\<forall>x \<in> set v. wf_MalType x)"
| "wf_MalType (GoMap v) = (distinct (map fst v) \<and> (\<forall>x \<in> set (map snd v). wf_MalType x))"
| "wf_MalType obj = True"

text \<open>
  \<open>go_comparable v\<close>: the values on which Go's \<^verbatim>\<open>==\<close> neither panics nor answers
  false when a value is compared with itself. \<open>Equal_safe v\<close>: the values built from
  those by lists, vectors and hash maps; the metadata of a list, a vector or a hash map
  is not constrained.
\<close>

fun go_comparable :: "MalType \<Rightarrow> bool" where
  "go_comparable (GoFloat64 w) = (\<not> f64_is_NaN w)"
| "go_comparable (Atom v m) = (go_comparable v \<and> go_comparable m)"
| "go_comparable (List v m) = False"
| "go_comparable (Vector v m) = False"
| "go_comparable (HashMap v m) = False"
| "go_comparable (Func f m) = False"
| "go_comparable (MalFunc f) = False"
| "go_comparable (GoFunc f) = False"
| "go_comparable (GoSlice v) = False"
| "go_comparable (GoMap v) = False"
| "go_comparable obj = True"

fun Equal_safe :: "MalType \<Rightarrow> bool" where
  "Equal_safe (List v m) = (\<forall>x \<in> set v. Equal_safe x)"
| "Equal_safe (Vector v m) = (\<forall>x \<in> set v. Equal_safe x)"
| "Equal_safe (HashMap v m) = (\<forall>x \<in> set (map snd v). Equal_safe x)"
| "Equal_safe obj = go_comparable obj"

text \<open>A host whose state is the log of the calls made to it.\<close>

datatype call =
    CallFn nat "MalType list"
  | CallEval nat MalType EnvType
  | CallGenEnv nat EnvType MalType MalType

text \<open>
  In \<open>logging_host\<close> a host function returns the number of its arguments, the
  evaluator returns the expression it is given, and the environment builder number 0
  reports an arity error while every other builder returns the environment 1.
\<close>

definition logging_host :: "call list host" where
  "logging_host =
     \<lparr> call_Fn = (\<lambda>n args w.
         (Inr (GoInt (word_of_nat (length args)), None), w @ [CallFn n args])),
       call_Eval = (\<lambda>n exp env w. (Inr (exp, None), w @ [CallEval n exp env])),
       call_GenEnv = (\<lambda>n env params args w.
         (if n = 0 then Inr (EnvNil, Some (ErrorString ''wrong number of arguments''))
          else Inr (EnvRef 1, None),
          w @ [CallGenEnv n env params args])) \<rparr>"

definition closure_bad_arity :: "MalType MalFunc_s" where
  "closure_bad_arity =
     MalFunc_s (Some 7) (Symbol ''x'') (EnvRef 0) (List [Symbol ''x''] GoNil) False (Some 0) GoNil"

definition closure_ok :: "MalType MalFunc_s" where
  "closure_ok =
     MalFunc_s (Some 7) (Symbol ''x'') (EnvRef 0) (List [Symbol ''x''] GoNil) False (Some 1) GoNil"

text \<open>The hash maps \<^verbatim>\<open>{k: 1}\<close>, \<^verbatim>\<open>{k: 1, other: 2}\<close>, \<^verbatim>\<open>{k: nil}\<close> and \<^verbatim>\<open>{other: 1}\<close>.\<close>

definition hm_k1 :: MalType where
  "hm_k1 = HashMap [(''k'', GoInt 1)] GoNil"

definition hm_k1_other2 :: MalType where
  "hm_k1_other2 = HashMap [(''k'', GoInt 1), (''other'', GoInt 2)] GoNil"

definition hm_k_nil :: MalType where
  "hm_k_nil = HashMap [(''k'', GoNil)] GoNil"

definition hm_other1 :: MalType where
  "hm_other1 = HashMap [(''other'', GoInt 1)] GoNil"

definition big_literal :: string where
  "big_literal = ''123456789012345678901234567890''"

definition sample_value :: MalType where
  "sample_value =
     List [GoInt 1, GoString ''a'', JsonNumber ''2.5'', GoNil,
           HashMap [(''k'', Vector [Symbol ''x'', AtomPtr 3] GoNil)] GoNil]
       (Func (Some 0) GoNil)"

section \<open>Properties of \<^verbatim>\<open>Equal_Q\<close>\<close>

lemma f64_eq_refl: "f64_eq w w = (\<not> f64_is_NaN w)"
  by (simp add: f64_eq_def)

lemma go_eq_self: "(go_eq v v = Inr True) = go_comparable v"
  by (induction v) (auto simp: f64_eq_refl split: sum.splits bool.splits)

lemma Equal_Q_loop_self:
  "(Equal_Q_loop xs xs = Inr True) = (\<forall>x \<in> set xs. Equal_Q x x = Inr True)"
  by (induction xs) (auto split: sum.splits bool.splits)

lemma Equal_Q_range_True:
  "(Equal_Q_range kvs bm = Inr True) =
     (\<forall>kv \<in> set kvs. Equal_Q (snd kv) (map_index bm (fst kv)) = Inr True)"
  by (induction kvs) (auto split: sum.splits bool.splits)

lemma map_index_self:
  "distinct (map fst kvs) \<Longrightarrow> kv \<in> set kvs \<Longrightarrow> map_index kvs (fst kv) = snd kv"
  by (cases kv) (simp add: map_index_def)

lemma Equal_Q_List: "Equal_Q (List xs m) (List xs m') = Equal_Q_loop xs xs"
  by (simp add: Sequential_Q_def)

lemma Equal_Q_Vector: "Equal_Q (Vector xs m) (Vector xs m') = Equal_Q_loop xs xs"
  by (simp add: Sequential_Q_def)

lemma Equal_Q_HashMap:
  "Equal_Q (HashMap kvs m) (HashMap kvs m') = Equal_Q_range kvs kvs"
  by (simp add: Sequential_Q_def)

lemma Equal_Q_default:
  "TypeOf v \<notin> {TSymbol, TList, TVector, THashMap} \<Longrightarrow> Equal_Q v v = go_eq v v"
  by (cases v) (simp_all add: Sequential_Q_def)

text \<open>
  Claim C1, as the code has it. \<^verbatim>\<open>Equal_Q(v, v)\<close> returns true exactly on the values of
  \<open>Equal_safe\<close>: nil, booleans, ints, numbers, strings, symbols, atom pointers, and the
  lists, vectors and hash maps of such values. On every other value the call does not
  return true.
\<close>

theorem C1_Equal_Q_self:
  "wf_MalType v \<Longrightarrow> (Equal_Q v v = Inr True) = Equal_safe v"
proof (induction v)
  case (List xs m)
  then show ?case by (simp add: Equal_Q_List Equal_Q_loop_self del: Equal_Q.simps)
next
  case (Vector xs m)
  then show ?case by (simp add: Equal_Q_Vector Equal_Q_loop_self del: Equal_Q.simps)
next
  case (HashMap kvs m)
  have "(Equal_Q_range kvs kvs = Inr True) =
        (\<forall>kv \<in> set kvs. Equal_Q (snd kv) (snd kv) = Inr True)"
    using HashMap.prems by (simp add: Equal_Q_range_True map_index_self del: Equal_Q.simps)
  also have "\<dots> = (\<forall>kv \<in> set kvs. Equal_safe (snd kv))"
  proof -
    have "(Equal_Q (snd kv) (snd kv) = Inr True) = Equal_safe (snd kv)"
      if "kv \<in> set kvs" for kv
    proof -
      have "wf_MalType (snd kv)" using HashMap.prems that by simp
      moreover have "snd kv \<in> Basic_BNFs.snds kv" by (cases kv) simp
      ultimately show ?thesis using HashMap.IH(1) [OF that] by blast
    qed
    then show ?thesis by blast
  qed
  finally show ?case by (simp add: Equal_Q_HashMap del: Equal_Q.simps)
next
  case (Symbol s)
  then show ?case by (simp add: Sequential_Q_def)
qed (simp_all add: Equal_Q_default go_eq_self del: Equal_Q.simps go_eq.simps)

text \<open>The theorem at \<open>sample_value\<close>, whose metadata is a native function.\<close>

theorem C1_Equal_Q_self_witness:
  "wf_MalType sample_value \<and> Equal_safe sample_value \<and>
   Equal_Q sample_value sample_value = Inr True"
proof -
  have w: "wf_MalType sample_value" by (simp add: sample_value_def)
  have s: "Equal_safe sample_value" by (simp add: sample_value_def)
  show ?thesis using w s C1_Equal_Q_self [OF w] by (simp del: Equal_Q.simps)
qed

text \<open>Comparing a native function with itself panics: \<^verbatim>\<open>Func\<close> has a function field,
  and the default branch compares the two interface values with \<^verbatim>\<open>==\<close>.\<close>

theorem C1_Func_panics:
  "Equal_Q (Func (Some 0) GoNil) (Func (Some 0) GoNil) = Inl (UncomparableType TFunc)"
  by (simp add: Sequential_Q_def)

text \<open>
  Claim C2, as the code has it. Two hash maps with different numbers of keys are not
  equal, whichever comes first: the comparison of the lengths returns false before any
  key is read.
\<close>

theorem C2_sizes_differ:
  "length am \<noteq> length bm \<Longrightarrow> Equal_Q (HashMap am ameta) (HashMap bm bmeta) = Inr False"
  by (simp add: Sequential_Q_def)

theorem C2_sizes_differ_witness:
  "length [(''k'', GoInt 1)] \<noteq> length [(''k'', GoInt 1), (''other'', GoInt 2)] \<and>
   Equal_Q hm_k1 hm_k1_other2 = Inr False \<and> Equal_Q hm_k1_other2 hm_k1 = Inr False"
  using
    C2_sizes_differ [of "[(''k'', GoInt 1)]" "[(''k'', GoInt 1), (''other'', GoInt 2)]"
      GoNil GoNil]
    C2_sizes_differ [of "[(''k'', GoInt 1), (''other'', GoInt 2)]" "[(''k'', GoInt 1)]"
      GoNil GoNil]
  by (simp add: hm_k1_def hm_k1_other2_def del: Equal_Q.simps)

text \<open>The claim says that \<^verbatim>\<open>Equal({k: 1}, {k: 1, other: 2})\<close> is true; it is false.\<close>

theorem C2_not_true: "Equal_Q hm_k1 hm_k1_other2 = Inr False"
  by (simp add: hm_k1_def hm_k1_other2_def Sequential_Q_def)

text \<open>
  What \<^verbatim>\<open>Equal_Q\<close> computes on two hash maps: the lengths agree, and the value of every
  key of the first map is equal to what indexing the second map with that key gives,
  which is nil for a key that the second map does not have.
\<close>

lemma Equal_Q_HashMap_iff:
  "(Equal_Q (HashMap am ameta) (HashMap bm bmeta) = Inr True) =
     (length am = length bm \<and>
      (\<forall>kv \<in> set am. Equal_Q (snd kv) (map_index bm (fst kv)) = Inr True))"
  by (simp add: Sequential_Q_def Equal_Q_range_True del: Equal_Q_range.simps)

text \<open>
  Claim C3 at \<^verbatim>\<open>a = {k: nil}\<close> and \<^verbatim>\<open>b = {other: 1}\<close>. The two maps have one key each,
  the key of \<open>a\<close> is not a key of \<open>b\<close>, and \<^verbatim>\<open>Equal_Q(a, b)\<close> is true: \<^verbatim>\<open>bm[k]\<close> is nil
  for the absent key, and nil equals the value of \<open>k\<close> in \<open>a\<close>. In the other direction
  the result is false.
\<close>

theorem C3_absent_key_equals_nil:
  "Equal_Q hm_k_nil hm_other1 = Inr True \<and>
   map_of [(''other'', GoInt 1)] ''k'' = None \<and>
   Equal_Q hm_other1 hm_k_nil = Inr False"
  by (simp add: hm_k_nil_def hm_other1_def Sequential_Q_def map_index_def)

text \<open>
  A list and a vector are compared element by element, the structs' types
  notwithstanding.
\<close>

lemma Equal_Q_List_Vector:
  "Equal_Q (List xs m) (Vector ys m') =
     (if length xs \<noteq> length ys then Inr False else Equal_Q_loop xs ys)"
  by (simp add: Sequential_Q_def)

lemma Equal_Q_Vector_List:
  "Equal_Q (Vector ys m') (List xs m) =
     (if length ys \<noteq> length xs then Inr False else Equal_Q_loop ys xs)"
  by (simp add: Sequential_Q_def)

lemma Equal_Q_loop_True:
  "length xs = length ys \<Longrightarrow>
   (Equal_Q_loop xs ys = Inr True) = (\<forall>i < length xs. Equal_Q (xs ! i) (ys ! i) = Inr True)"
proof (induction xs ys rule: list_induct2)
  case Nil
  then show ?case by simp
next
  case (Cons x xs y ys)
  have "(\<forall>i < Suc (length xs). Equal_Q ((x # xs) ! i) ((y # ys) ! i) = Inr True) =
        (Equal_Q x y = Inr True \<and> (\<forall>i < length xs. Equal_Q (xs ! i) (ys ! i) = Inr True))"
    by (auto simp: less_Suc_eq_0_disj simp del: Equal_Q.simps)
  with Cons.IH show ?case
    by (auto split: sum.splits bool.splits simp del: Equal_Q.simps)
qed

text \<open>
  When the elements are equal at every position in both directions, so are the list
  and the vector.
\<close>

lemma Equal_Q_List_Vector_both:
  assumes "length xs = length ys"
    and "\<forall>i < length xs.
           Equal_Q (xs ! i) (ys ! i) = Inr True \<and> Equal_Q (ys ! i) (xs ! i) = Inr True"
  shows "Equal_Q (List xs m) (Vector ys m') = Inr True \<and>
         Equal_Q (Vector ys m') (List xs m) = Inr True"
  using assms
  by (simp add: Equal_Q_List_Vector Equal_Q_Vector_List Equal_Q_loop_True del: Equal_Q.simps)

text \<open>
  Claim C8 at the list \<^verbatim>\<open>({k: nil})\<close> and the vector \<^verbatim>\<open>[{other: 1}]\<close>. They have the same
  length and \<^verbatim>\<open>Equal_Q\<close> is true of the elements at position 0, so \<^verbatim>\<open>Equal_Q(l, vec)\<close>
  is true; \<^verbatim>\<open>Equal_Q(vec, l)\<close> is false.
\<close>

theorem C8_list_vector_one_direction:
  "length [hm_k_nil] = length [hm_other1] \<and>
   Equal_Q ([hm_k_nil] ! 0) ([hm_other1] ! 0) = Inr True \<and>
   Equal_Q (List [hm_k_nil] GoNil) (Vector [hm_other1] GoNil) = Inr True \<and>
   Equal_Q (Vector [hm_other1] GoNil) (List [hm_k_nil] GoNil) = Inr False"
  by (simp add: hm_k_nil_def hm_other1_def Sequential_Q_def map_index_def)

section \<open>Properties of the decoder and of \<^verbatim>\<open>Number_Q\<close>\<close>

text \<open>
  Claim C4 at \<^verbatim>\<open>[{"symbol": "x", "extra": "y"}]\<close>. The object is decoded into a
  \<^verbatim>\<open>Symbol\<close> by \<^verbatim>\<open>json.Unmarshal\<close>, which skips the member \<^verbatim>\<open>extra\<close>: the call succeeds.
  It succeeds as well one level down, at
  \<^verbatim>\<open>[{"list": [{"symbol": "x", "extra": "y"}], "unrecognized": null}]\<close>.
\<close>

theorem C4_extra_field_ignored:
  "UnmarshalJSON pf []
     (JArray [JObject [(''symbol'', JString ''x''), (''extra'', JString ''y'')]]) =
   ([Symbol ''x''], None) \<and>
   UnmarshalJSON pf []
     (JArray [JObject [(''list'', JArray [JObject [(''symbol'', JString ''x''),
                                                    (''extra'', JString ''y'')]]),
                       (''unrecognized'', JNull)]]) =
   ([List [Symbol ''x''] GoNil], None)"
  by (simp add: JSONUnmarshal_RawMessages_def JSONUnmarshal_Number_def
      JSONUnmarshal_interface_def json_Unmarshal_map_def has_key_def json_Unmarshal_def find_field_def
      Symbol_store_def store_string_def ascii_upper_def)

text \<open>
  Claim C5 at \<^verbatim>\<open>[{"vector": [123456789012345678901234567890]}]\<close>. The elements of the
  vector are decoded by \<^verbatim>\<open>json.Unmarshal\<close> into interfaces: the literal becomes the
  \<^verbatim>\<open>float64\<close> that \<^verbatim>\<open>strconv.ParseFloat\<close> gives for it, 64 bits, and not its text. The
  same literal as an element of the list itself keeps its text.
\<close>

theorem C5_vector_number_is_float:
  "UnmarshalJSON pf [] (JArray [JObject [(''vector'', JArray [JNumber big_literal])]]) =
     (case pf big_literal of
        Some w \<Rightarrow> ([Vector [GoFloat64 w] GoNil], None)
      | None \<Rightarrow> ([], Some (UnmarshalTypeError (''number '' @ big_literal) ''float64''))) \<and>
   UnmarshalJSON pf [] (JArray [JObject [(''vector'', JArray [JNumber big_literal])]]) \<noteq>
     ([Vector [JsonNumber big_literal] GoNil], None) \<and>
   UnmarshalJSON pf [] (JArray [JNumber big_literal]) = ([JsonNumber big_literal], None)"
  by (simp add: JSONUnmarshal_RawMessages_def JSONUnmarshal_Number_def
      JSONUnmarshal_interface_def json_Unmarshal_map_def has_key_def json_Unmarshal_def find_field_def
      Vector_store_def store_slice_def ascii_upper_def saveError_def split: option.splits)

text \<open>The other positions: the payload of an atom, a value of a hash map and the
  metadata are floats as well, while a number in a nested list or in a plain array
  keeps its text.\<close>

lemma decode_nested_numbers:
  "pf big_literal = Some w \<Longrightarrow>
   UnmarshalJSON pf []
     (JArray [JObject [(''atom'', JNumber big_literal)],
              JObject [(''hashmap'', JObject [(''a'', JNumber big_literal)])],
              JObject [(''list'', JArray [JNumber big_literal]), (''meta'', JNumber big_literal)],
              JArray [JNumber big_literal]]) =
   ([Atom (GoFloat64 w) GoNil, HashMap [(''a'', GoFloat64 w)] GoNil,
     List [JsonNumber big_literal] (GoFloat64 w), GoSlice [JsonNumber big_literal]], None)"
  by (simp add: JSONUnmarshal_RawMessages_def JSONUnmarshal_Number_def
      JSONUnmarshal_interface_def json_Unmarshal_map_def has_key_def json_Unmarshal_def find_field_def
      Atom_store_def HashMap_store_def store_map_def store_interface_def ascii_upper_def)

text \<open>
  Claim C10. \<^verbatim>\<open>Number_Q\<close> is true of the ints and of nothing else: not of a
  \<^verbatim>\<open>float64\<close>, and not of the \<^verbatim>\<open>json.Number\<close> that the decoder appends for a numeric
  literal.
\<close>

theorem C10_Number_Q:
  "Number_Q v = (\<exists>n. v = GoInt n) \<and>
   \<not> Number_Q (GoFloat64 w) \<and>
   \<not> Number_Q (JsonNumber s) \<and>
   UnmarshalJSON_range pf j (JNumber s # rest) =
     UnmarshalJSON_range pf (j @ [JsonNumber s]) rest \<and>
   UnmarshalJSON pf [] (JArray [JNumber s]) = ([JsonNumber s], None)"
  by (cases v) (simp_all add: JSONUnmarshal_RawMessages_def JSONUnmarshal_Number_def)

section \<open>Properties of \<^verbatim>\<open>Apply\<close> and \<^verbatim>\<open>SetMacro\<close>\<close>




text \<open>
  Claim C7. Let the closure have an environment builder, and let the builder return.
  If it returns an error, \<^verbatim>\<open>Apply\<close> returns nil and that error, the host is in the
  state the builder left, and the result is the same whatever the evaluator is: the
  evaluator is not called. If it returns no error and the closure has an evaluator,
  \<^verbatim>\<open>Apply\<close> is the call of the evaluator on the closure's body and the new environment,
  from the state the builder left.
\<close>

theorem C7_closure_application:
  "GenEnv f = Some g \<Longrightarrow>
   call_GenEnv h g (Env f) (Params f) (List a GoNil) w = (Inr (env, err), w1) \<Longrightarrow>
   (err = Some e \<longrightarrow>
      Apply h (MalFunc f) a w = (Inr (GoNil, Some e), w1) \<and>
      Apply (h\<lparr>call_Eval := ev'\<rparr>) (MalFunc f) a w = (Inr (GoNil, Some e), w1)) \<and>
   (err = None \<longrightarrow> Eval f = Some ev \<longrightarrow>
      Apply h (MalFunc f) a w = call_Eval h ev (Exp f) env w1)"
  by (simp add: Apply_def)

text \<open>With the logging host: after the arity error the log holds the call of the
  builder alone; after a successful binding it holds the builder and then the
  evaluator, called on the body \<open>x\<close> and the new environment.\<close>

theorem C7_closure_application_witness:
  "Apply logging_host (MalFunc closure_bad_arity) [GoInt 1, GoInt 2] [] =
     (Inr (GoNil, Some (ErrorString ''wrong number of arguments'')),
      [CallGenEnv 0 (EnvRef 0) (List [Symbol ''x''] GoNil) (List [GoInt 1, GoInt 2] GoNil)]) \<and>
   Apply logging_host (MalFunc closure_ok) [GoInt 1] [] =
     (Inr (Symbol ''x'', None),
      [CallGenEnv 1 (EnvRef 0) (List [Symbol ''x''] GoNil) (List [GoInt 1] GoNil),
       CallEval 7 (Symbol ''x'') (EnvRef 1)])"
  using
    C7_closure_application [of closure_bad_arity 0 logging_host "[GoInt 1, GoInt 2]" "[]"
      EnvNil "Some (ErrorString ''wrong number of arguments'')"
      "[CallGenEnv 0 (EnvRef 0) (List [Symbol ''x''] GoNil) (List [GoInt 1, GoInt 2] GoNil)]"
      "ErrorString ''wrong number of arguments''" "call_Eval logging_host" 7]
    C7_closure_application [of closure_ok 1 logging_host "[GoInt 1]" "[]"
      "EnvRef 1" None
      "[CallGenEnv 1 (EnvRef 0) (List [Symbol ''x''] GoNil) (List [GoInt 1] GoNil)]"
      "ErrorString ''unused''" "call_Eval logging_host" 7]
  by (simp add: closure_bad_arity_def closure_ok_def logging_host_def)


end
